theory Spec2Isabelle
  imports Complex_Main
begin

section \<open>JavaScript string primitives\<close>

text \<open>
  Strings are lists of 8-bit characters. \<open>toLowerCase\<close> folds the ASCII letters, which
  is all that the keyword tests of the program depend on.
\<close>

definition lowerChar :: "char \<Rightarrow> char" where
  "lowerChar c =
     (case map_of (zip ''ABCDEFGHIJKLMNOPQRSTUVWXYZ'' ''abcdefghijklmnopqrstuvwxyz'') c of
        Some d \<Rightarrow> d
      | None \<Rightarrow> c)"

definition toLowerCase :: "string \<Rightarrow> string" where
  "toLowerCase s = map lowerChar s"

fun startsWith :: "string \<Rightarrow> string \<Rightarrow> bool" where
  "startsWith s [] = True"
| "startsWith [] (p # ps) = False"
| "startsWith (c # cs) (p # ps) = (c = p \<and> startsWith cs ps)"

text \<open>\<open>s.includes(pat)\<close>: \<open>pat\<close> occurs in \<open>s\<close> as a contiguous substring.\<close>

fun includes_str :: "string \<Rightarrow> string \<Rightarrow> bool" where
  "includes_str [] pat = (pat = [])"
| "includes_str (c # cs) pat = (startsWith (c # cs) pat \<or> includes_str cs pat)"

definition endsWith :: "string \<Rightarrow> string \<Rightarrow> bool" where
  "endsWith s suf = startsWith (rev s) (rev suf)"

text \<open>The characters matched by \<open>\s\<close> and removed by \<open>trim\<close> (among the 8-bit ones).\<close>

definition isSpace :: "char \<Rightarrow> bool" where
  "isSpace c = (c = CHR '' '' \<or> c = CHR 0x09 \<or> c = CHR 0x0A \<or> c = CHR 0x0B
                \<or> c = CHR 0x0C \<or> c = CHR 0x0D \<or> c = CHR 0xA0)"

definition trim :: "string \<Rightarrow> string" where
  "trim s = rev (dropWhile isSpace (rev (dropWhile isSpace s)))"

section \<open>JavaScript numbers\<close>

text \<open>
  A number that can be \<open>NaN\<close>: the sentiment comes from a library that divides by
  the number of tokens, and \<open>0/0\<close> is \<open>NaN\<close>. The arithmetic operators,
  \<open>Math.abs\<close>, \<open>Math.min\<close> and \<open>Math.max\<close> return \<open>NaN\<close> as soon as an operand is
  \<open>NaN\<close>. The finite values are reals. An infinite value is left out: in the one
  place where a \<open>jsnum\<close> is computed with, \<open>Math.min(0.4, |s| * 0.25)\<close>, an infinite
  \<open>s\<close> gives what every real of magnitude 1.6 or more gives. Quantities that are
  never \<open>NaN\<close> (counts, ratios with a tested denominator, constants) are reals.
\<close>

datatype jsnum = Num real | NaN

definition jsLift2 :: "(real \<Rightarrow> real \<Rightarrow> real) \<Rightarrow> jsnum \<Rightarrow> jsnum \<Rightarrow> jsnum" where
  "jsLift2 f a b =
     (case a of
        NaN \<Rightarrow> NaN
      | Num x \<Rightarrow> (case b of NaN \<Rightarrow> NaN | Num y \<Rightarrow> Num (f x y)))"

definition jsAbs :: "jsnum \<Rightarrow> jsnum" where
  "jsAbs a = (case a of NaN \<Rightarrow> NaN | Num x \<Rightarrow> Num \<bar>x\<bar>)"

definition jsAdd :: "jsnum \<Rightarrow> jsnum \<Rightarrow> jsnum" where
  "jsAdd = jsLift2 (\<lambda>x y. x + y)"

definition jsSub :: "jsnum \<Rightarrow> jsnum \<Rightarrow> jsnum" where
  "jsSub = jsLift2 (\<lambda>x y. x - y)"

definition jsMul :: "jsnum \<Rightarrow> jsnum \<Rightarrow> jsnum" where
  "jsMul = jsLift2 (\<lambda>x y. x * y)"

definition jsMin :: "jsnum \<Rightarrow> jsnum \<Rightarrow> jsnum" where
  "jsMin = jsLift2 min"

definition jsMax :: "jsnum \<Rightarrow> jsnum \<Rightarrow> jsnum" where
  "jsMax = jsLift2 max"

text \<open>\<open>x || d\<close> for a number \<open>x\<close>: the falsy numbers are \<open>0\<close> and \<open>NaN\<close>.\<close>

definition orDefault :: "jsnum \<Rightarrow> real \<Rightarrow> real" where
  "orDefault a d = (case a of NaN \<Rightarrow> d | Num x \<Rightarrow> if x = 0 then d else x)"

section \<open>FreeFactChecker: evidence, truth score, confidence\<close>

text \<open>An item of \<open>results\<close> in \<open>searchEvidence\<close>; \<open>fullText\<close> is set by the enrichment only.\<close>

record evidence =
  source :: string
  title :: string
  snippet :: string
  url :: string
  relevance :: real
  fullText :: "string option"

text \<open>
  \<open>truthDetails.stats\<close>: \<open>computeTruthScore\<close> sets \<open>supports\<close> and \<open>refutes\<close>,
  \<open>makeDirectVerdict\<close> only one of them, and nothing sets \<open>neutral\<close>; a field that
  is not set is \<open>None\<close>.
\<close>

record stats =
  supports :: "nat option"
  refutes :: "nat option"
  neutral :: "nat option"

record truthAnalysis =
  truthScore :: real
  stats :: stats

text \<open>The text scanned for cues: the template
  \<open>`${item.title} ${item.snippet} ${item.fullText || ''}`.toLowerCase()\<close>.\<close>

definition itemText :: "evidence \<Rightarrow> string" where
  "itemText item =
     toLowerCase (title item @ '' '' @ snippet item @ '' '' @
                  (case fullText item of None \<Rightarrow> '''' | Some t \<Rightarrow> t))"

definition isRefuting :: "string \<Rightarrow> bool" where
  "isRefuting t = (includes_str t ''false'' \<or> includes_str t ''not true''
                   \<or> includes_str t ''misinformation'')"

definition isSupporting :: "string \<Rightarrow> bool" where
  "isSupporting t = (includes_str t ''true'' \<or> includes_str t ''confirmed'')"

text \<open>The loop of \<open>computeTruthScore\<close> over the evidence, carrying both counters.\<close>

fun countCues :: "evidence list \<Rightarrow> nat \<Rightarrow> nat \<Rightarrow> nat \<times> nat" where
  "countCues [] supp refu = (supp, refu)"
| "countCues (item # items) supp refu =
     (let t = itemText item;
          refu' = (if isRefuting t then refu + 1 else refu);
          supp' = (if isSupporting t then supp + 1 else supp)
      in countCues items supp' refu')"

definition computeTruthScore :: "string \<Rightarrow> evidence list \<Rightarrow> truthAnalysis" where
  "computeTruthScore claim evidence =
     (if length evidence = 0
      then \<lparr> truthScore = 1/2,
             stats = \<lparr> supports = Some 0, refutes = Some 0, neutral = None \<rparr> \<rparr>
      else
        (let (supp, refu) = countCues evidence 0 0;
             total = supp + refu;
             st = \<lparr> supports = Some supp, refutes = Some refu, neutral = None \<rparr>
         in if total = 0 then \<lparr> truthScore = 1/2, stats = st \<rparr>
            else \<lparr> truthScore = real refu / real total, stats = st \<rparr>))"

definition calculateConfidence :: "jsnum \<Rightarrow> string list \<Rightarrow> evidence list \<Rightarrow> jsnum" where
  "calculateConfidence sentiment fallacies evidence =
     (let score0 = Num (1/2);
          score1 = jsSub score0 (jsMin (Num (4/10)) (jsMul (jsAbs sentiment) (Num (25/100))));
          score2 = jsSub score1
                     (jsMin (Num (6/10)) (Num (real (length fallacies) * (15/100))));
          score3 = (if length evidence > 0 then jsAdd score2 (Num (2/10)) else score2)
      in jsMax (Num (1/100)) (jsMin (Num (99/100)) score3))"

definition determineVerdictFromTruthScore :: "real \<Rightarrow> string" where
  "determineVerdictFromTruthScore score =
     (if score > 6/10 then ''FALSE''
      else if score < 4/10 then ''TRUE''
      else ''NEEDS VERIFICATION'')"

definition buildExplanation ::
  "string \<Rightarrow> string \<Rightarrow> truthAnalysis \<Rightarrow> evidence list \<Rightarrow> string" where
  "buildExplanation claim verdict truthDetails evidence =
     (if verdict = ''TRUE'' then ''Multiple reliable sources support this claim.''
      else if verdict = ''FALSE'' then ''Reliable sources contradict this claim.''
      else ''Evidence is inconclusive or mixed.'')"

section \<open>External collaborators\<close>

text \<open>
  The libraries and the network are parameters of the model. \<open>new URL(s)\<close> is the
  platform's parser: \<open>parseURL\<close> gives the two parts the program reads, or \<open>None\<close>
  where the constructor throws. The text normaliser is built from three library calls,
  the sentiment analyser may throw (\<open>None\<close>) or return \<open>NaN\<close>, and \<open>regexTest\<close> is
  the regular expression engine applied to one of the three fallacy patterns.
  \<open>toFixed d x\<close> is \<open>Number(x.toFixed(d))\<close> as the platform computes it on the
  floating-point number that stands for \<open>x\<close>: which of two neighbouring decimals it
  picks close to a tie depends on the binary representation, so the model does not fix
  it. Every network operation maps the request to its decoded payload, \<open>None\<close> when
  the fetch or the decoding fails or the payload lacks the part that is read.
\<close>

record url_parts =
  protocol :: string
  hostname :: string

datatype fallacyPattern = ad_hominem | false_dilemma | appeal_to_authority

record wikiHit =
  hit_title :: string
  hit_snippet :: string

record ddgAnswer =
  AbstractText :: string
  AbstractURL :: string
  Heading :: string

record relatedTopic =
  Text :: string
  FirstURL :: string

record newsArticle =
  article_source :: string
  article_title :: string
  article_url :: string
  article_description :: string

record env =
  aposToLexForm :: "string \<Rightarrow> string"
  tokenize :: "string \<Rightarrow> string list"
  removeStopwords :: "string list \<Rightarrow> string list"
  getSentiment :: "string list \<Rightarrow> jsnum option"
  regexTest :: "fallacyPattern \<Rightarrow> string \<Rightarrow> bool"
  parseURL :: "string \<Rightarrow> url_parts option"
  toFixed :: "nat \<Rightarrow> real \<Rightarrow> real"
  wikiSearch :: "string \<Rightarrow> wikiHit list option"
  ddgInstant :: "string \<Rightarrow> ddgAnswer option"
  articleText :: "string \<Rightarrow> string option"
  openSearch :: "string \<Rightarrow> (string \<times> string) option"
  pageSummary :: "string \<Rightarrow> (string \<times> string) option"
  ddgRelated :: "string \<Rightarrow> relatedTopic list option"
  newsApi :: "string \<Rightarrow> newsArticle list option"
  NEWSAPI_KEY :: string
  fetchUrlText :: "string \<Rightarrow> (string \<times> string) option"

text \<open>Every outbound request is appended to a log, which is the state that is threaded
  through the functions that touch the network.\<close>

datatype request =
    WikiSearchReq string
  | DdgInstantReq string
  | ArticleReq string
  | OpenSearchReq string
  | SummaryReq string
  | DdgRelatedReq string
  | NewsApiReq string
  | PageReq string

section \<open>FreeFactChecker: source credibility\<close>

text \<open>The tier chain of \<open>classifySourceQuality\<close>, applied to the host it has settled on.\<close>

definition hostTier :: "string \<Rightarrow> real" where
  "hostTier host =
     (if endsWith host ''.gov'' \<or> endsWith host ''.gov.in'' \<or> endsWith host ''.edu''
      then 95/100
      else if includes_str host ''who.int'' \<or> includes_str host ''nih.gov''
              \<or> includes_str host ''cdc.gov'' \<or> includes_str host ''un.org''
      then 95/100
      else if includes_str host ''wikipedia.org'' then 85/100
      else if includes_str host ''bbc.'' \<or> includes_str host ''reuters.''
              \<or> includes_str host ''apnews.'' \<or> includes_str host ''nytimes.''
              \<or> includes_str host ''guardian.'' \<or> includes_str host ''washingtonpost.''
              \<or> includes_str host ''wsj.'' \<or> includes_str host ''ft.com''
              \<or> includes_str host ''aljazeera.'' \<or> includes_str host ''bloomberg.''
              \<or> includes_str host ''cnn.'' \<or> includes_str host ''nbcnews.''
              \<or> includes_str host ''cbsnews.'' \<or> includes_str host ''abcnews.''
              \<or> includes_str host ''indiatoday.'' \<or> includes_str host ''thehindu.''
              \<or> includes_str host ''hindustantimes.'' \<or> includes_str host ''indianexpress.''
      then 8/10
      else if includes_str host ''facebook.'' \<or> includes_str host ''instagram.''
              \<or> includes_str host ''tiktok.'' \<or> includes_str host ''whatsapp.''
      then 25/100
      else 5/10)"

text \<open>\<open>!url\<close> holds of the empty string only; the \<open>catch\<close> branch takes the string
  itself, lower-cased, as the host.\<close>

definition classifySourceQuality :: "env \<Rightarrow> string \<Rightarrow> real" where
  "classifySourceQuality e u =
     (if u = [] then 4/10
      else
        (let host = (case parseURL e u of
                       Some parts \<Rightarrow> toLowerCase (hostname parts)
                     | None \<Rightarrow> toLowerCase u)
         in hostTier host))"

section \<open>FreeFactChecker: the common-sense layer\<close>

text \<open>
  The object returned by \<open>checkClaim\<close> (the timestamp is left out). Of
  \<open>truthDetails\<close> only \<open>stats\<close> is ever read, so the field holds the stats object.
\<close>

record fcResult =
  fc_claim :: string
  processedClaim :: string
  sentiment :: jsnum
  fallacies :: "string list"
  fc_evidence :: "evidence list"
  fc_truthScore :: real
  truthDetails :: stats
  confidence :: jsnum
  verdict :: string
  explanation :: string

definition makeDirectVerdict :: "string \<Rightarrow> string \<Rightarrow> jsnum \<Rightarrow> string \<Rightarrow> fcResult" where
  "makeDirectVerdict c v conf expl =
     \<lparr> fc_claim = c,
       processedClaim = c,
       sentiment = Num 0,
       fallacies = [],
       fc_evidence = [],
       fc_truthScore = (if v = ''FALSE'' then 98/100 else 2/100),
       truthDetails = (if v = ''FALSE''
                       then \<lparr> supports = None, refutes = Some 1, neutral = None \<rparr>
                       else \<lparr> supports = Some 1, refutes = None, neutral = None \<rparr>),
       confidence = conf,
       verdict = v,
       explanation = expl \<rparr>"

record nationalityRule =
  entity :: string
  trueNat :: string
  wrong :: "string list"

definition nationalityRules :: "nationalityRule list" where
  "nationalityRules =
     [\<lparr> entity = ''narendra modi'', trueNat = ''indian'',
        wrong = [''american'', ''german'', ''british'', ''french''] \<rparr>]"

definition nonVegItems :: "string list" where
  "nonVegItems = [''chicken'', ''fish'', ''mutton'', ''pork'', ''beef'', ''egg'', ''eggs'']"

text \<open>The first entry of a list that the string includes: the inner \<open>for\<close> loops, which
  return at the first hit.\<close>

fun firstIncluded :: "string \<Rightarrow> string list \<Rightarrow> string option" where
  "firstIncluded s [] = None"
| "firstIncluded s (w # ws) = (if includes_str s w then Some w else firstIncluded s ws)"

fun checkNationality :: "nationalityRule list \<Rightarrow> string \<Rightarrow> fcResult option" where
  "checkNationality [] raw = None"
| "checkNationality (rule # rules) raw =
     (let entityMatch = (includes_str (toLowerCase raw) ''narendra''
                         \<and> includes_str (toLowerCase raw) ''modi'')
      in if entityMatch then
           (case firstIncluded (toLowerCase raw) (wrong rule) of
              Some w \<Rightarrow>
                Some (makeDirectVerdict raw ''FALSE'' (Num (99/100))
                        (entity rule @ '' is '' @ trueNat rule @ '', not '' @ w @ ''.''))
            | None \<Rightarrow>
                if includes_str (toLowerCase raw) (trueNat rule)
                then Some (makeDirectVerdict raw ''TRUE'' (Num (99/100))
                             (entity rule @ '' is '' @ trueNat rule @ ''.''))
                else checkNationality rules raw)
         else checkNationality rules raw)"

definition checkVegetarian :: "string \<Rightarrow> string \<Rightarrow> fcResult option" where
  "checkVegetarian processed raw =
     (if includes_str (toLowerCase processed) ''veg''
         \<or> includes_str (toLowerCase processed) ''vegetarian''
      then (case firstIncluded (toLowerCase raw) nonVegItems of
              Some item \<Rightarrow>
                Some (makeDirectVerdict raw ''FALSE'' (Num (99/100)) (item @ '' is not vegetarian.''))
            | None \<Rightarrow> None)
      else None)"

definition checkWater :: "string \<Rightarrow> fcResult option" where
  "checkWater raw =
     (if includes_str (toLowerCase raw) ''water'' \<and> includes_str (toLowerCase raw) ''wet''
      then Some (makeDirectVerdict raw ''TRUE'' (Num (99/100)) ''Water is wet.'')
      else None)"

text \<open>The three rule families in the order of the source; \<open>None\<close> is its \<open>null\<close>.\<close>

definition checkKnownFacts :: "string \<Rightarrow> string \<Rightarrow> fcResult option" where
  "checkKnownFacts processed raw =
     (case checkNationality nationalityRules raw of
        Some r \<Rightarrow> Some r
      | None \<Rightarrow>
          (case checkVegetarian processed raw of
             Some r \<Rightarrow> Some r
           | None \<Rightarrow> checkWater raw))"

section \<open>FreeFactChecker: preprocessing, sentiment, fallacies\<close>

definition isLowerAlpha :: "char \<Rightarrow> bool" where
  "isLowerAlpha c = (c \<in> set ''abcdefghijklmnopqrstuvwxyz'')"

text \<open>\<open>tokens.join(' ')\<close>.\<close>

fun joinSpace :: "string list \<Rightarrow> string" where
  "joinSpace [] = []"
| "joinSpace [w] = w"
| "joinSpace (w # v # ws) = w @ '' '' @ joinSpace (v # ws)"

definition preprocessText :: "env \<Rightarrow> string \<Rightarrow> string" where
  "preprocessText e s =
     (let lexed = aposToLexForm e (toLowerCase s);
          alpha = filter (\<lambda>c. isLowerAlpha c \<or> isSpace c) lexed;
          tokens = tokenize e alpha
      in joinSpace (removeStopwords e tokens))"

definition analyzeSentiment :: "env \<Rightarrow> string \<Rightarrow> jsnum" where
  "analyzeSentiment e s =
     (case getSentiment e (tokenize e s) of Some v \<Rightarrow> v | None \<Rightarrow> Num 0)"

text \<open>The names are the keys of the pattern table after \<open>name.replace('_', ' ')\<close>, which
  replaces the first underscore only.\<close>

definition detectLogicalFallacies :: "env \<Rightarrow> string \<Rightarrow> string list" where
  "detectLogicalFallacies e s =
     (if regexTest e ad_hominem s then [''ad hominem''] else []) @
     (if regexTest e false_dilemma s then [''false dilemma''] else []) @
     (if regexTest e appeal_to_authority s then [''appeal to_authority''] else [])"

section \<open>FreeFactChecker: relevance\<close>

text \<open>\<open>s.split(' ')\<close>: the pieces between single spaces; the empty string gives one
  empty piece.\<close>

fun splitSpace :: "string \<Rightarrow> string list" where
  "splitSpace [] = [[]]"
| "splitSpace (c # cs) =
     (if c = CHR '' '' then [] # splitSpace cs
      else (case splitSpace cs of
              [] \<Rightarrow> [[c]]
            | w # ws \<Rightarrow> (c # w) # ws))"

definition calculateRelevance :: "env \<Rightarrow> string \<Rightarrow> string \<Rightarrow> real" where
  "calculateRelevance e query body =
     (let q = splitSpace (preprocessText e query);
          t = splitSpace (preprocessText e body);
          qSet = remdups q;
          tSet = remdups t;
          intersection = filter (\<lambda>x. x \<in> set tSet) qSet;
          union = remdups (qSet @ tSet)
      in if length union \<noteq> 0 then real (length intersection) / real (length union) else 0)"

section \<open>FreeFactChecker: evidence retrieval\<close>

definition generateSearchQueries :: "string \<Rightarrow> string list" where
  "generateSearchQueries c =
     [c,
      c @ '' fact check'',
      c @ '' site:wikipedia.org'',
      c @ '' news'',
      c @ '' myth'',
      c @ '' scientific study'']"

text \<open>A replacement of \<open>/\s+/g\<close>: every run of white space becomes the one
  character \<open>r\<close>. The flag says whether the previous character was white space.\<close>

fun collapseRuns :: "char \<Rightarrow> bool \<Rightarrow> string \<Rightarrow> string" where
  "collapseRuns r inRun [] = []"
| "collapseRuns r inRun (c # cs) =
     (if isSpace c
      then (if inRun then collapseRuns r True cs else r # collapseRuns r True cs)
      else c # collapseRuns r False cs)"

text \<open>\<open>snippet.replace(/<[^>]*>/g, '')\<close>: a \<open><\<close> is dropped together with
  everything up to the next \<open>>\<close>; where no \<open>>\<close> follows, it stays.\<close>

function stripTags :: "string \<Rightarrow> string" where
  "stripTags [] = []"
| "stripTags (c # cs) =
     (if c = CHR ''<'' \<and> CHR ''>'' \<in> set cs
      then stripTags (tl (dropWhile (\<lambda>x. x \<noteq> CHR ''>'') cs))
      else c # stripTags cs)"
  by pat_completeness auto
termination
proof (relation "measure length")
  show "wf (measure length)" by simp
next
  fix c :: char and cs :: string
  have "length (tl (dropWhile (\<lambda>x. x \<noteq> CHR ''>'') cs)) \<le> length cs"
    using length_dropWhile_le [of "\<lambda>x. x \<noteq> CHR ''>''" cs] by simp
  then show "(tl (dropWhile (\<lambda>x. x \<noteq> CHR ''>'') cs), c # cs) \<in> measure length" by simp
next
  fix c :: char and cs :: string
  show "(cs, c # cs) \<in> measure length" by simp
qed

text \<open>\<open>encodeURIComponent\<close>: the unreserved characters stay, every other character is
  replaced by the percent-escapes of its UTF-8 bytes (one byte below 128, two from 128
  to 255).\<close>

definition unreserved :: "char \<Rightarrow> bool" where
  "unreserved c =
     (c \<in> set ''ABCDEFGHIJKLMNOPQRSTUVWXYZabcdefghijklmnopqrstuvwxyz0123456789-_.!~*()''
      \<or> c = CHR 0x27)"

definition hexDigit :: "nat \<Rightarrow> char" where
  "hexDigit n = ''0123456789ABCDEF'' ! (n mod 16)"

definition percentByte :: "nat \<Rightarrow> string" where
  "percentByte b = [CHR ''%'', hexDigit (b div 16), hexDigit b]"

definition encodeChar :: "char \<Rightarrow> string" where
  "encodeChar c =
     (let n = (of_char c :: nat)
      in if unreserved c then [c]
         else if n < 128 then percentByte n
         else percentByte (192 + n div 64) @ percentByte (128 + n mod 64))"

definition encodeURIComponent :: "string \<Rightarrow> string" where
  "encodeURIComponent s = concat (map encodeChar s)"

text \<open>The inner loop over the first three Wikipedia hits: a URL already in \<open>seen\<close> is
  skipped, a new one is recorded and its item pushed.\<close>

fun wikiItems ::
  "env \<Rightarrow> string \<Rightarrow> wikiHit list \<Rightarrow> string list \<times> evidence list
     \<Rightarrow> string list \<times> evidence list" where
  "wikiItems e c [] (seen, results) = (seen, results)"
| "wikiItems e c (item # items) (seen, results) =
     (let u = ''https://en.wikipedia.org/wiki/''
                @ encodeURIComponent (collapseRuns (CHR ''_'') False (hit_title item))
      in if u \<in> set seen then wikiItems e c items (seen, results)
         else wikiItems e c items
                (seen @ [u],
                 results @ [\<lparr> source = ''Wikipedia'',
                               title = hit_title item,
                               snippet = stripTags (hit_snippet item),
                               url = u,
                               relevance = calculateRelevance e c (hit_snippet item),
                               fullText = None \<rparr>]))"

definition ddgItem ::
  "env \<Rightarrow> string \<Rightarrow> ddgAnswer \<Rightarrow> string list \<times> evidence list
     \<Rightarrow> string list \<times> evidence list" where
  "ddgItem e c d st =
     (case st of (seen, results) \<Rightarrow>
        if AbstractText d \<noteq> [] then
          (let u = AbstractURL d
           in if u \<in> set seen then (seen, results)
              else (seen @ [u],
                    results @ [\<lparr> source = ''DuckDuckGo'',
                                  title = Heading d,
                                  snippet = AbstractText d,
                                  url = u,
                                  relevance = calculateRelevance e c (AbstractText d),
                                  fullText = None \<rparr>]))
        else (seen, results))"

text \<open>One pass of the loop over the queries: the Wikipedia call, the DuckDuckGo call
  (two requests, whatever they return), then the test \<open>results.length > 20\<close>.\<close>

definition searchStep ::
  "env \<Rightarrow> string \<Rightarrow> string \<Rightarrow> string list \<times> evidence list
     \<Rightarrow> string list \<times> evidence list" where
  "searchStep e c q st =
     (let st1 = (case wikiSearch e q of
                   Some hits \<Rightarrow> wikiItems e c (take 3 hits) st
                 | None \<Rightarrow> st)
      in (case ddgInstant e q of
            Some d \<Rightarrow> ddgItem e c d st1
          | None \<Rightarrow> st1))"

fun searchLoop ::
  "env \<Rightarrow> string \<Rightarrow> string list \<Rightarrow> (string list \<times> evidence list) \<times> request list
     \<Rightarrow> (string list \<times> evidence list) \<times> request list" where
  "searchLoop e c [] (st, reqs) = (st, reqs)"
| "searchLoop e c (q # qs) (st, reqs) =
     (let st' = searchStep e c q st;
          reqs' = reqs @ [WikiSearchReq q, DdgInstantReq q]
      in if length (snd st') > 20 then (st', reqs')
         else searchLoop e c qs (st', reqs'))"

definition MAX_ARTICLE_CHARS :: nat where
  "MAX_ARTICLE_CHARS = 4000"

definition truncate_str :: "string \<Rightarrow> nat \<Rightarrow> string" where
  "truncate_str s n = (if s = [] then [] else if length s > n then take n s else s)"

text \<open>\<open>fetchArticleText\<close>: no request for an empty URL; a failed fetch gives the empty
  string.\<close>

definition fetchArticleText :: "env \<Rightarrow> string \<Rightarrow> request list \<Rightarrow> string \<times> request list" where
  "fetchArticleText e u reqs =
     (if u = [] then ([], reqs)
      else ((case articleText e u of
               Some t \<Rightarrow> truncate_str t MAX_ARTICLE_CHARS
             | None \<Rightarrow> []),
            reqs @ [ArticleReq u]))"

fun enrich :: "env \<Rightarrow> evidence list \<Rightarrow> request list \<Rightarrow> evidence list \<times> request list" where
  "enrich e [] reqs = ([], reqs)"
| "enrich e (item # items) reqs =
     (let (t, reqs1) = fetchArticleText e (url item) reqs;
          item' = (if t \<noteq> [] then item\<lparr> fullText := Some t \<rparr> else item);
          (rest, reqs2) = enrich e items reqs1
      in (item' # rest, reqs2))"

definition searchEvidence :: "env \<Rightarrow> string \<Rightarrow> request list \<Rightarrow> evidence list \<times> request list" where
  "searchEvidence e c reqs =
     (let queries = generateSearchQueries c;
          ((seen, results), reqs1) = searchLoop e c queries (([], []), reqs);
          (top, reqs2) = enrich e (take 5 results) reqs1
      in (top @ drop 5 results, reqs2))"

section \<open>FreeFactChecker: the main check\<close>

definition checkClaim :: "env \<Rightarrow> string \<Rightarrow> request list \<Rightarrow> fcResult \<times> request list" where
  "checkClaim e c reqs =
     (let processed = preprocessText e c
      in case checkKnownFacts processed c of
           Some knownFact \<Rightarrow> (knownFact, reqs)
         | None \<Rightarrow>
             (let sent = analyzeSentiment e processed;
                  falls = detectLogicalFallacies e processed;
                  (ev, reqs') = searchEvidence e c reqs;
                  truthAnalysis = computeTruthScore c ev;
                  ts = truthScore truthAnalysis;
                  conf = calculateConfidence sent falls ev;
                  v = determineVerdictFromTruthScore ts;
                  expl = buildExplanation c v truthAnalysis ev
              in (\<lparr> fc_claim = c,
                     processedClaim = processed,
                     sentiment = sent,
                     fallacies = falls,
                     fc_evidence = ev,
                     fc_truthScore = ts,
                     truthDetails = stats truthAnalysis,
                     confidence = conf,
                     verdict = v,
                     explanation = expl \<rparr>,
                  reqs')))"

section \<open>The server: parsing the query\<close>

definition isLikelyUrl :: "env \<Rightarrow> string \<Rightarrow> bool" where
  "isLikelyUrl e v =
     (case parseURL e v of
        Some u \<Rightarrow> startsWith (protocol u) ''http:'' \<or> startsWith (protocol u) ''https:''
      | None \<Rightarrow> False)"

record userInput =
  original :: string
  normalized :: string
  intent :: string

definition parseUserInput :: "env \<Rightarrow> string \<Rightarrow> userInput" where
  "parseUserInput e s =
     \<lparr> original = s,
       normalized = s,
       intent = (if isLikelyUrl e s then ''url_article_verification''
                 else if endsWith s ''?'' then ''question_verification''
                 else ''factual_verification'') \<rparr>"

text \<open>\<open>t.replace(/^is\s+/, '')\<close> and its sibling for \<open>are\<close>: the word and the white
  space after it go, when at least one white space follows the word.\<close>

definition dropLeadingWord :: "string \<Rightarrow> string \<Rightarrow> string" where
  "dropLeadingWord w t =
     (if startsWith t w \<and> (case drop (length w) t of [] \<Rightarrow> False | c # _ \<Rightarrow> isSpace c)
      then dropWhile isSpace (drop (length w) t)
      else t)"

text \<open>\<open>t.replace(/\?$/, '')\<close>.\<close>

definition dropFinalQuestionMark :: "string \<Rightarrow> string" where
  "dropFinalQuestionMark t = (if endsWith t ''?'' then butlast t else t)"

definition extractCanonicalClaim :: "userInput \<Rightarrow> string" where
  "extractCanonicalClaim inp =
     (let t = trim (toLowerCase (normalized inp))
      in if startsWith t ''is '' then trim (dropFinalQuestionMark (dropLeadingWord ''is'' t))
         else if startsWith t ''are '' then trim (dropFinalQuestionMark (dropLeadingWord ''are'' t))
         else normalized inp)"

section \<open>The server: evidence\<close>

text \<open>
  An evidence object of the server. The items mapped from the fact checker carry
  \<open>source_type\<close> and \<open>credibility\<close>, the ones fetched by the server carry
  \<open>verdict: 'supports'\<close>; a field an object does not have is \<open>None\<close>. A missing
  string of a payload is the empty string.
\<close>

record srvEvidence =
  ev_url :: string
  ev_source :: string
  ev_title :: string
  summary :: string
  source_type :: "string option"
  credibility :: "real option"
  ev_verdict :: "string option"

text \<open>\<open>claim.toLowerCase().split(/\s+/)\<close>: the pieces between the runs of white space.\<close>

definition splitWhitespace :: "string \<Rightarrow> string list" where
  "splitWhitespace s = splitSpace (collapseRuns (CHR '' '') False s)"

definition buildRelevanceKeywords :: "string \<Rightarrow> string list" where
  "buildRelevanceKeywords c =
     (let ws = filter (\<lambda>x. length x > 3) (splitWhitespace (toLowerCase c));
          ws' = (if includes_str (toLowerCase c) ''modi''
                 then ws @ [''narendra'', ''modi'', ''india'', ''indian'', ''prime minister'',
                            ''nationality'', ''citizen'']
                 else ws)
      in rev (remdups (rev ws')))"

definition isRelevantEvidence :: "srvEvidence \<Rightarrow> string list \<Rightarrow> bool" where
  "isRelevantEvidence item keywords =
     (let body = toLowerCase (ev_title item @ '' '' @ summary item)
      in list_ex (\<lambda>k. includes_str body k) keywords)"

text \<open>\<open>mergeEvidence\<close>: the values of the map in insertion order. An object is stored
  when its url is truthy and the map has no entry for that url yet.\<close>

fun mergeInto :: "srvEvidence list \<Rightarrow> srvEvidence list \<Rightarrow> srvEvidence list" where
  "mergeInto acc [] = acc"
| "mergeInto acc (ev # evs) =
     (if ev_url ev \<noteq> [] \<and> ev_url ev \<notin> set (map ev_url acc)
      then mergeInto (acc @ [ev]) evs
      else mergeInto acc evs)"

definition mergeEvidence :: "srvEvidence list \<Rightarrow> srvEvidence list \<Rightarrow> srvEvidence list" where
  "mergeEvidence a b = mergeInto [] (a @ b)"

definition inferSourceType :: "env \<Rightarrow> string \<Rightarrow> string" where
  "inferSourceType e u =
     (case parseURL e u of
        Some parts \<Rightarrow>
          (let host = toLowerCase (hostname parts)
           in if includes_str host ''wikipedia.org'' then ''encyclopedia''
              else if endsWith host ''.gov'' \<or> includes_str host ''.gov.'' then ''government''
              else if includes_str host ''bbc.'' \<or> includes_str host ''reuters.''
                      \<or> includes_str host ''guardian.'' \<or> includes_str host ''nytimes.''
                      \<or> includes_str host ''cnn.'' \<or> includes_str host ''aljazeera.''
              then ''news''
              else ''web'')
      | None \<Rightarrow> ''web'')"

definition MAX_MODEL_INPUT :: nat where
  "MAX_MODEL_INPUT = 4000"

datatype failure = Status400 | Status502

record meta =
  meta_source :: string
  meta_url :: "string option"

text \<open>\<open>resolveQueryText\<close>: a URL is fetched (one request); a fetch that throws or
  yields no text makes the handler fail.\<close>

definition resolveQueryText ::
  "env \<Rightarrow> string \<Rightarrow> request list \<Rightarrow> (failure + string \<times> meta) \<times> request list" where
  "resolveQueryText e inp reqs =
     (if isLikelyUrl e inp then
        (case fetchUrlText e inp of
           None \<Rightarrow> (Inl Status502, reqs @ [PageReq inp])
         | Some (t, u) \<Rightarrow>
             if t = [] then (Inl Status502, reqs @ [PageReq inp])
             else (Inr (truncate_str t MAX_MODEL_INPUT, \<lparr> meta_source = ''url'', meta_url = Some u \<rparr>),
                   reqs @ [PageReq inp]))
      else (Inr (truncate_str inp MAX_MODEL_INPUT, \<lparr> meta_source = ''text'', meta_url = None \<rparr>), reqs))"

definition fetchWikipediaEvidence ::
  "env \<Rightarrow> string \<Rightarrow> request list \<Rightarrow> srvEvidence option \<times> request list" where
  "fetchWikipediaEvidence e query reqs =
     (let reqs1 = reqs @ [OpenSearchReq query]
      in case openSearch e query of
           None \<Rightarrow> (None, reqs1)
         | Some (t, u) \<Rightarrow>
             if t = [] \<or> u = [] then (None, reqs1)
             else
               (let reqs2 = reqs1 @ [SummaryReq t]
                in case pageSummary e t of
                     None \<Rightarrow> (None, reqs2)
                   | Some (dtitle, extract) \<Rightarrow>
                       if extract = [] then (None, reqs2)
                       else (Some \<lparr> ev_url = u,
                                    ev_source = ''wikipedia'',
                                    ev_title = (if dtitle \<noteq> [] then dtitle else t),
                                    summary = extract,
                                    source_type = None,
                                    credibility = None,
                                    ev_verdict = Some ''supports'' \<rparr>,
                             reqs2)))"

text \<open>\<open>x.Text.split(' - ')[0]\<close>: the part before the first \<open>' - '\<close>.\<close>

fun beforeDash :: "string \<Rightarrow> string" where
  "beforeDash [] = []"
| "beforeDash (c # cs) = (if startsWith (c # cs) '' - '' then [] else c # beforeDash cs)"

definition fetchDuckDuckGoEvidence ::
  "env \<Rightarrow> string \<Rightarrow> request list \<Rightarrow> srvEvidence list \<times> request list" where
  "fetchDuckDuckGoEvidence e query reqs =
     (let reqs1 = reqs @ [DdgRelatedReq query]
      in case ddgRelated e query of
           None \<Rightarrow> ([], reqs1)
         | Some topics \<Rightarrow>
             (map (\<lambda>x. \<lparr> ev_url = FirstURL x,
                          ev_source = ''duckduckgo'',
                          ev_title = beforeDash (Text x),
                          summary = Text x,
                          source_type = None,
                          credibility = None,
                          ev_verdict = Some ''supports'' \<rparr>)
                  (take 3 (filter (\<lambda>x. Text x \<noteq> [] \<and> FirstURL x \<noteq> []) topics)),
              reqs1))"

definition fetchNewsApiEvidence ::
  "env \<Rightarrow> string \<Rightarrow> request list \<Rightarrow> srvEvidence list \<times> request list" where
  "fetchNewsApiEvidence e query reqs =
     (if NEWSAPI_KEY e = [] then ([], reqs)
      else
        (let reqs1 = reqs @ [NewsApiReq query]
         in case newsApi e query of
              None \<Rightarrow> ([], reqs1)
            | Some articles \<Rightarrow>
                (map (\<lambda>a. \<lparr> ev_url = article_url a,
                             ev_source = (if article_source a \<noteq> [] then article_source a
                                          else ''news''),
                             ev_title = article_title a,
                             summary = article_description a,
                             source_type = None,
                             credibility = None,
                             ev_verdict = Some ''supports'' \<rparr>)
                     articles,
                 reqs1)))"

definition gatherEvidence ::
  "env \<Rightarrow> string \<Rightarrow> meta \<Rightarrow> request list \<Rightarrow> srvEvidence list \<times> request list" where
  "gatherEvidence e originalQuery m reqs =
     (if originalQuery = [] \<or> isLikelyUrl e originalQuery \<or> meta_source m = ''url''
      then ([], reqs)
      else if length originalQuery > 200 then ([], reqs)
      else
        (let (wiki, reqs1) = fetchWikipediaEvidence e originalQuery reqs;
             out1 = (case wiki of Some w \<Rightarrow> [w] | None \<Rightarrow> []);
             (ddg, reqs2) = fetchDuckDuckGoEvidence e originalQuery reqs1;
             out2 = out1 @ ddg;
             (news, reqs3) = (if NEWSAPI_KEY e \<noteq> []
                              then fetchNewsApiEvidence e originalQuery reqs2
                              else ([], reqs2));
             out3 = out2 @ news
         in (take 5 out3, reqs3)))"

section \<open>The server: reconciling the verdict\<close>

definition isStrongFC :: "string \<Rightarrow> real \<Rightarrow> real \<Rightarrow> bool" where
  "isStrongFC fcVerdict fcConfidence ts =
     (((fcVerdict = ''TRUE'' \<or> fcVerdict = ''FALSE'') \<and> fcConfidence \<ge> 80/100)
      \<or> ts \<ge> 90/100
      \<or> ts \<le> 10/100)"

text \<open>Step 9 of the handler of \<open>/api/analyze\<close>: from the fact checker's result, the
  cross-source agreement and the average source credibility to the final verdict and
  confidence. \<open>fc.verdict || 'NEEDS_VERIFICATION'\<close> and \<open>fc.confidence || 0.5\<close>
  replace an empty verdict and a confidence that is zero or \<open>NaN\<close>.\<close>

definition reconcile :: "env \<Rightarrow> fcResult \<Rightarrow> real \<Rightarrow> real \<Rightarrow> string \<times> real" where
  "reconcile e fc crossSourceAgreement sourceCredibilityScore =
     (let fcVerdict = (if verdict fc \<noteq> [] then verdict fc else ''NEEDS_VERIFICATION'');
          fcConfidence = orDefault (confidence fc) (1/2)
      in if isStrongFC fcVerdict fcConfidence (fc_truthScore fc)
         then (fcVerdict, fcConfidence)
         else
           (let finalVerdict =
                  (if crossSourceAgreement \<ge> 70/100 \<or> fc_truthScore fc \<ge> 70/100
                   then ''TRUE''
                   else if crossSourceAgreement \<le> 30/100 \<or> fc_truthScore fc \<le> 30/100
                   then ''FALSE''
                   else ''NEEDS VERIFICATION'');
                modelConfidence = fcConfidence;
                calibrated0 = max (7/10 * max (\<bar>fc_truthScore fc - 1/2\<bar> * 2) crossSourceAgreement)
                                  (5/10 * sourceCredibilityScore);
                calibrated = (calibrated0 + modelConfidence) / 2
            in (finalVerdict, max (1/100) (min (99/100) (toFixed e 2 calibrated)))))"

section \<open>The server: the handler of /api/analyze\<close>

record citation =
  cit_title :: string
  cit_url :: string
  cit_source :: string
  cit_credibility :: real

record response =
  resp_query :: string
  resp_claim :: string
  final_verdict :: string
  final_confidence :: real
  source_credibility_score :: real
  cross_source_agreement :: real
  reasoning :: string
  citations :: "citation list"
  resp_evidence :: "srvEvidence list"
  resp_truthScore :: real

definition orZero :: "nat option \<Rightarrow> nat" where
  "orZero x = (case x of Some n \<Rightarrow> n | None \<Rightarrow> 0)"

definition mapFcEvidence :: "env \<Rightarrow> evidence \<Rightarrow> srvEvidence" where
  "mapFcEvidence e x =
     \<lparr> ev_url = url x,
       ev_source = source x,
       ev_title = (if title x \<noteq> [] then title x else source x),
       summary = snippet x,
       source_type = Some (inferSourceType e (url x)),
       credibility = Some (classifySourceQuality e (url x)),
       ev_verdict = None \<rparr>"

definition averageCredibility :: "env \<Rightarrow> srvEvidence list \<Rightarrow> real" where
  "averageCredibility e filteredEvidence =
     (if length filteredEvidence \<noteq> 0
      then sum_list (map (\<lambda>ev. classifySourceQuality e (ev_url ev)) filteredEvidence)
           / real (length filteredEvidence)
      else 1/2)"

definition crossSourceAgreementOf :: "stats \<Rightarrow> real" where
  "crossSourceAgreementOf st =
     (let totalStats = orZero (supports st) + orZero (refutes st) + orZero (neutral st)
      in if totalStats > 0
         then real (orZero (supports st) + orZero (refutes st)) / real totalStats
         else 1/2)"

definition makeCitations :: "env \<Rightarrow> srvEvidence list \<Rightarrow> citation list" where
  "makeCitations e filteredEvidence =
     take 5 (sort_key (\<lambda>c. - cit_credibility c)
               (map (\<lambda>x. \<lparr> cit_title = (if ev_title x \<noteq> [] then ev_title x else ev_url x),
                            cit_url = ev_url x,
                            cit_source = ev_source x,
                            cit_credibility = classifySourceQuality e (ev_url x) \<rparr>)
                    filteredEvidence))"

text \<open>The handler, steps 1 to 11, with the log of the requests it has issued. The
  external evidence is gathered (step 3) before the fact checker runs (step 4).\<close>

definition analyze :: "env \<Rightarrow> string \<Rightarrow> (failure + response) \<times> request list" where
  "analyze e query =
     (let rawInput = trim query
      in if rawInput = [] then (Inl Status400, [])
         else
           (let inp = parseUserInput e rawInput;
                c = extractCanonicalClaim inp;
                canonicalClaim = (if c \<noteq> [] then c else original inp)
            in case resolveQueryText e canonicalClaim [] of
                 (Inl f, reqs1) \<Rightarrow> (Inl f, reqs1)
               | (Inr (resolvedText, m), reqs1) \<Rightarrow>
                   (let shouldGatherExternal = (length canonicalClaim > 5);
                        (externalEvidence, reqs2) =
                           (if shouldGatherExternal then gatherEvidence e canonicalClaim m reqs1
                            else ([], reqs1));
                        (fc, reqs3) = checkClaim e c reqs2;
                        fcMappedEvidence = map (mapFcEvidence e) (fc_evidence fc);
                        allEvidence = mergeEvidence fcMappedEvidence externalEvidence;
                        relevanceKeywords = buildRelevanceKeywords canonicalClaim;
                        filteredEvidence =
                           take 20 (filter (\<lambda>x. isRelevantEvidence x relevanceKeywords) allEvidence);
                        sourceCredibilityScore = averageCredibility e filteredEvidence;
                        crossSourceAgreement = crossSourceAgreementOf (truthDetails fc);
                        (finalVerdict, finalConfidence) =
                           reconcile e fc crossSourceAgreement sourceCredibilityScore
                    in (Inr \<lparr> resp_query = rawInput,
                              resp_claim = c,
                              final_verdict = finalVerdict,
                              final_confidence = finalConfidence,
                              source_credibility_score = toFixed e 3 sourceCredibilityScore,
                              cross_source_agreement = toFixed e 3 crossSourceAgreement,
                              reasoning = (if explanation fc \<noteq> [] then explanation fc
                                           else ''Verdict based on aggregated evidence.''),
                              citations = makeCitations e filteredEvidence,
                              resp_evidence = filteredEvidence,
                              resp_truthScore = fc_truthScore fc \<rparr>,
                        reqs3))))"

section \<open>Concrete environments and inputs\<close>

text \<open>
  A URL parser for the concrete environments: it accepts \<open>http://host/...\<close> and
  \<open>https://host/...\<close> and rejects every other string, in particular every string
  without a scheme, which the platform's parser rejects as well.
\<close>

definition hostOf :: "string \<Rightarrow> string" where
  "hostOf s = takeWhile (\<lambda>c. c \<noteq> CHR ''/'' \<and> c \<noteq> CHR ''?'' \<and> c \<noteq> CHR ''#'' \<and> c \<noteq> CHR '':'') s"

definition simpleParseURL :: "string \<Rightarrow> url_parts option" where
  "simpleParseURL s =
     (if startsWith s ''https://'' \<and> hostOf (drop 8 s) \<noteq> []
      then Some \<lparr> protocol = ''https:'', hostname = toLowerCase (hostOf (drop 8 s)) \<rparr>
      else if startsWith s ''http://'' \<and> hostOf (drop 7 s) \<noteq> []
      then Some \<lparr> protocol = ''http:'', hostname = toLowerCase (hostOf (drop 7 s)) \<rparr>
      else None)"

text \<open>
  A rounding for the concrete environments: the multiple of \<open>10^-d\<close> nearest to the
  real \<open>x\<close>, the one nearer to zero on a tie; a number of magnitude \<open>10^21\<close> or more
  is left as it is. Away from the ties this is what \<open>Number(x.toFixed(d))\<close> gives.
\<close>

definition nearestFixed :: "nat \<Rightarrow> real \<Rightarrow> real" where
  "nearestFixed d x =
     (if \<bar>x\<bar> \<ge> 10 ^ 21 then x
      else
        (let n = \<lceil>\<bar>x\<bar> * 10 ^ d - 1/2\<rceil>
         in if x < 0 then - (of_int n / 10 ^ d) else of_int n / 10 ^ d))"

text \<open>Every request fails; the normaliser splits at single spaces and removes no
  stop word; the sentiment is \<open>0/0\<close> for an empty token list and 0 otherwise; no
  fallacy.\<close>

definition offline :: env where
  "offline =
     \<lparr> aposToLexForm = (\<lambda>s. s),
       tokenize = (\<lambda>s. filter (\<lambda>w. w \<noteq> []) (splitSpace s)),
       removeStopwords = (\<lambda>ws. ws),
       getSentiment = (\<lambda>ws. Some (if ws = [] then NaN else Num 0)),
       regexTest = (\<lambda>p s. False),
       parseURL = simpleParseURL,
       toFixed = nearestFixed,
       wikiSearch = (\<lambda>q. None),
       ddgInstant = (\<lambda>q. None),
       articleText = (\<lambda>u. None),
       openSearch = (\<lambda>q. None),
       pageSummary = (\<lambda>t. None),
       ddgRelated = (\<lambda>q. None),
       newsApi = (\<lambda>q. None),
       NEWSAPI_KEY = [],
       fetchUrlText = (\<lambda>u. None) \<rparr>"

text \<open>Every Wikipedia search returns three hits named after the query, and every
  instant answer has an abstract with a URL made from the query.\<close>

definition busy :: env where
  "busy =
     offline
       \<lparr> wikiSearch := (\<lambda>q. Some [\<lparr> hit_title = q @ '' a'', hit_snippet = ''a'' \<rparr>,
                                    \<lparr> hit_title = q @ '' b'', hit_snippet = ''b'' \<rparr>,
                                    \<lparr> hit_title = q @ '' c'', hit_snippet = ''c'' \<rparr>]),
         ddgInstant := (\<lambda>q. Some \<lparr> AbstractText = ''d'',
                                    AbstractURL = ''https://example.org/'' @ q,
                                    Heading = q \<rparr>) \<rparr>"

text \<open>An evidence item whose snippet says ``not true''.\<close>

definition sample_item :: evidence where
  "sample_item =
     \<lparr> source = ''Wikipedia'', title = ''Moon'', snippet = ''This is NOT true'',
       url = ''https://en.wikipedia.org/wiki/Moon'', relevance = 0, fullText = None \<rparr>"


text \<open>Every Wikipedia search finds one page, whose snippet says ``confirmed''.\<close>

definition confirming :: env where
  "confirming =
     offline
       \<lparr> wikiSearch :=
           (\<lambda>q. Some [\<lparr> hit_title = ''Arithmetic'',
                         hit_snippet = ''It is <b>confirmed</b>'' \<rparr>]) \<rparr>"

text \<open>The result of the fact checker in that environment for a claim without a
  letter: the processed claim is empty.\<close>

definition sum_fc :: fcResult where
  "sum_fc = fst (checkClaim confirming ''1 + 1 = 2'' [])"

section \<open>Auxiliary predicates\<close>



text \<open>The loop invariant of \<open>searchEvidence\<close>: every collected URL is in \<open>seen\<close>, and no
  URL was collected twice.\<close>

definition searchInv :: "string list \<times> evidence list \<Rightarrow> bool" where
  "searchInv st = (set (map url (snd st)) \<subseteq> set (fst st) \<and> distinct (map url (snd st)))"


text \<open>Three evidence objects of the server: one mapped from the fact checker, one
  fetched by the server for the same page, and one mapped from an instant answer that
  came without \<open>AbstractURL\<close>.\<close>

definition moon_a :: srvEvidence where
  "moon_a =
     \<lparr> ev_url = ''https://en.wikipedia.org/wiki/Moon'', ev_source = ''Wikipedia'',
       ev_title = ''Moon'', summary = ''The Moon is a satellite'',
       source_type = Some ''encyclopedia'', credibility = Some (85/100), ev_verdict = None \<rparr>"

definition moon_b :: srvEvidence where
  "moon_b =
     \<lparr> ev_url = ''https://en.wikipedia.org/wiki/Moon'', ev_source = ''wikipedia'',
       ev_title = ''Moon'', summary = ''The Moon is the only natural satellite of Earth'',
       source_type = None, credibility = None, ev_verdict = Some ''supports'' \<rparr>"

definition no_url_item :: srvEvidence where
  "no_url_item =
     \<lparr> ev_url = [], ev_source = ''DuckDuckGo'',
       ev_title = ''Moon'', summary = ''The Moon is a satellite'',
       source_type = Some ''web'', credibility = Some (4/10), ev_verdict = None \<rparr>"

section \<open>Substrings\<close>

lemma startsWith_iff: "startsWith s p \<longleftrightarrow> (\<exists>r. s = p @ r)"
  by (induction s p rule: startsWith.induct) auto

lemma includes_str_iff: "includes_str s p \<longleftrightarrow> (\<exists>a b. s = a @ p @ b)"
proof (induction s)
  case Nil
  then show ?case by auto
next
  case (Cons c cs)
  show ?case
  proof
    assume "includes_str (c # cs) p"
    then consider "startsWith (c # cs) p" | "includes_str cs p" by auto
    then show "\<exists>a b. c # cs = a @ p @ b"
    proof cases
      case 1
      then obtain r where "c # cs = p @ r" using startsWith_iff by blast
      then have "c # cs = [] @ p @ r" by simp
      then show ?thesis by blast
    next
      case 2
      then obtain a b where "cs = a @ p @ b" using Cons.IH by blast
      then have "c # cs = (c # a) @ p @ b" by simp
      then show ?thesis by blast
    qed
  next
    assume "\<exists>a b. c # cs = a @ p @ b"
    then obtain a b where ab: "c # cs = a @ p @ b" by blast
    show "includes_str (c # cs) p"
    proof (cases a)
      case Nil
      then have "startsWith (c # cs) p" using ab startsWith_iff [of "c # cs" p] by auto
      then show ?thesis by simp
    next
      case (Cons x a')
      then have "cs = a' @ p @ b" using ab by simp
      then show ?thesis using Cons.IH by auto
    qed
  qed
qed

text \<open>The supporting cue ``true'' is a substring of the refuting cue ``not true''.\<close>

lemma includes_not_true: "includes_str t ''not true'' \<Longrightarrow> includes_str t ''true''"
proof -
  assume "includes_str t ''not true''"
  then obtain a b where "t = a @ ''not true'' @ b" using includes_str_iff by blast
  then have "t = (a @ ''not '') @ ''true'' @ b" by simp
  then show ?thesis using includes_str_iff by blast
qed

section \<open>The truth score\<close>

lemma countCues_filter:
  "countCues ev s r =
     (s + length (filter (\<lambda>i. isSupporting (itemText i)) ev),
      r + length (filter (\<lambda>i. isRefuting (itemText i)) ev))"
  by (induction ev arbitrary: s r) (simp_all add: Let_def)

lemma ratio_unit: "real f / real (s + f) \<le> 1"
proof (cases "s + f = 0")
  case True
  then show ?thesis by simp
next
  case False
  then have "0 < s + f" by simp
  then have "0 < real (s + f)" by (simp only: of_nat_0_less_iff)
  moreover have "f \<le> s + f" by simp
  then have "real f \<le> real (s + f)" by (simp only: of_nat_le_iff)
  ultimately show ?thesis by (simp only: divide_le_eq_1_pos)
qed

text \<open>
  Claim C4. With \<open>s\<close> the number of evidence items whose text holds a supporting cue
  and \<open>f\<close> the number of those whose text holds a refuting cue, \<open>computeTruthScore\<close>
  reports these two counts, its \<open>truthScore\<close> is \<open>f / (s + f)\<close> when \<open>s + f > 0\<close>
  and \<open>1/2\<close> otherwise, in particular for the empty evidence set, and it always
  lies between 0 and 1.
\<close>

theorem truthScore_is_refute_ratio:
  "(let r = computeTruthScore c ev;
        s = length (filter (\<lambda>i. isSupporting (itemText i)) ev);
        f = length (filter (\<lambda>i. isRefuting (itemText i)) ev)
    in stats r = \<lparr> supports = Some s, refutes = Some f, neutral = None \<rparr>
       \<and> (s + f > 0 \<longrightarrow> truthScore r = real f / real (s + f))
       \<and> (s + f = 0 \<longrightarrow> truthScore r = 1/2)
       \<and> (ev = [] \<longrightarrow> truthScore r = 1/2)
       \<and> 0 \<le> truthScore r \<and> truthScore r \<le> 1)"
proof -
  define s where "s = length (filter (\<lambda>i. isSupporting (itemText i)) ev)"
  define f where "f = length (filter (\<lambda>i. isRefuting (itemText i)) ev)"
  have cc: "countCues ev 0 0 = (s, f)" by (simp add: countCues_filter s_def f_def)
  have e: "ev = [] \<Longrightarrow> s = 0 \<and> f = 0" by (simp add: s_def f_def)
  have r: "computeTruthScore c ev =
             \<lparr> truthScore = (if s + f = 0 then 1/2 else real f / real (s + f)),
               stats = \<lparr> supports = Some s, refutes = Some f, neutral = None \<rparr> \<rparr>"
    using e by (cases "ev = []") (simp_all add: computeTruthScore_def cc)
  have b: "0 \<le> real f / real (s + f)" "real f / real (s + f) \<le> 1"
    using ratio_unit [of f s] by simp_all
  show ?thesis
    unfolding Let_def s_def [symmetric] f_def [symmetric] r using e b by auto
qed

theorem truthScore_is_refute_ratio_witness:
  "truthScore (computeTruthScore ''the moon is made of cheese'' [sample_item]) = 1/2
   \<and> truthScore (computeTruthScore ''the moon is made of cheese''
                   [sample_item\<lparr> snippet := ''Hoax, false'' \<rparr>]) = 1
   \<and> truthScore (computeTruthScore ''the moon is made of cheese'' []) = 1/2"
proof -
  have a: "isSupporting (itemText sample_item)" "isRefuting (itemText sample_item)"
    by code_simp+
  have b: "\<not> isSupporting (itemText (sample_item\<lparr> snippet := ''Hoax, false'' \<rparr>))"
    "isRefuting (itemText (sample_item\<lparr> snippet := ''Hoax, false'' \<rparr>))"
    by code_simp+
  show ?thesis
    using truthScore_is_refute_ratio [of "''the moon is made of cheese''" "[sample_item]"]
      truthScore_is_refute_ratio
        [of "''the moon is made of cheese''" "[sample_item\<lparr> snippet := ''Hoax, false'' \<rparr>]"]
      truthScore_is_refute_ratio [of "''the moon is made of cheese''" "[]"] a b
    by (simp add: Let_def)
qed

text \<open>
  Claim C10. For an evidence set of one item whose scanned text contains ``not true'',
  \<open>computeTruthScore\<close> counts the item both as refuting and as supporting, so it
  returns one refutation, one support and the truth score \<open>1/2\<close>, not 1.
\<close>

theorem not_true_counts_both_ways:
  assumes "includes_str (itemText item) ''not true''"
  shows "computeTruthScore c [item] =
           \<lparr> truthScore = 1/2,
             stats = \<lparr> supports = Some 1, refutes = Some 1, neutral = None \<rparr> \<rparr>"
proof -
  have r: "isRefuting (itemText item)" using assms by (simp add: isRefuting_def)
  have s: "isSupporting (itemText item)"
    using includes_not_true [OF assms] by (simp add: isSupporting_def)
  have "countCues [item] 0 0 = (1, 1)" using r s by (simp add: Let_def)
  then show ?thesis by (simp add: computeTruthScore_def)
qed

theorem not_true_counts_both_ways_witness:
  "includes_str (itemText sample_item) ''not true''
   \<and> computeTruthScore ''the moon is made of cheese'' [sample_item] =
       \<lparr> truthScore = 1/2,
         stats = \<lparr> supports = Some 1, refutes = Some 1, neutral = None \<rparr> \<rparr>"
proof -
  have h: "includes_str (itemText sample_item) ''not true''" by code_simp
  show ?thesis using not_true_counts_both_ways [OF h] h by simp
qed

section \<open>The confidence of the fact checker\<close>

lemma jsnum_ops:
  "jsAbs (Num x) = Num \<bar>x\<bar>"
  "jsAdd (Num x) (Num y) = Num (x + y)"
  "jsSub (Num x) (Num y) = Num (x - y)"
  "jsMul (Num x) (Num y) = Num (x * y)"
  "jsMin (Num x) (Num y) = Num (min x y)"
  "jsMax (Num x) (Num y) = Num (max x y)"
  by (simp_all add: jsLift2_def jsAbs_def jsAdd_def jsSub_def jsMul_def jsMin_def jsMax_def)

lemma jsnum_ops_NaN:
  "jsAbs NaN = NaN"
  "jsAdd NaN b = NaN" "jsAdd a NaN = NaN"
  "jsSub NaN b = NaN" "jsSub a NaN = NaN"
  "jsMul NaN b = NaN" "jsMul a NaN = NaN"
  "jsMin NaN b = NaN" "jsMin a NaN = NaN"
  "jsMax NaN b = NaN" "jsMax a NaN = NaN"
  by (simp_all add: jsLift2_def jsAbs_def jsAdd_def jsSub_def jsMul_def jsMin_def jsMax_def
      split: jsnum.splits)

lemma calculateConfidence_Num:
  "calculateConfidence (Num s) fs ev =
     Num (max (1/100) (min (99/100)
       (1/2 - min (4/10) (\<bar>s\<bar> * (25/100)) - min (6/10) (real (length fs) * (15/100))
        + (if ev \<noteq> [] then 2/10 else 0))))"
proof -
  define A where
    "A = 1/2 - min (4/10) (\<bar>s\<bar> * (25/100)) - min (6/10) (real (length fs) * (15/100))"
  have "calculateConfidence (Num s) fs ev =
          Num (max (1/100) (min (99/100) (if length ev > 0 then A + 2/10 else A)))"
    unfolding calculateConfidence_def Let_def A_def
    by (cases "length ev > 0") (simp_all only: jsnum_ops if_True if_False)
  also have "(if length ev > 0 then A + 2/10 else A) = A + (if ev \<noteq> [] then 2/10 else 0)"
    by simp
  finally show ?thesis unfolding A_def .
qed

lemma calculateConfidence_NaN: "calculateConfidence NaN fs ev = NaN"
  unfolding calculateConfidence_def Let_def
  by (cases "length ev > 0") (simp_all only: jsnum_ops_NaN if_True if_False)

text \<open>The confidence is \<open>NaN\<close>, or a number between 0.01 and 0.99.\<close>

lemma calculateConfidence_range:
  "calculateConfidence a fs ev = NaN
   \<or> (\<exists>x. calculateConfidence a fs ev = Num x \<and> 1/100 \<le> x \<and> x \<le> 99/100)"
proof (cases a)
  case NaN
  then show ?thesis by (simp add: calculateConfidence_NaN)
next
  case (Num s)
  define y where
    "y = 1/2 - min (4/10) (\<bar>s\<bar> * (25/100)) - min (6/10) (real (length fs) * (15/100))
         + (if ev \<noteq> [] then 2/10 else 0)"
  have "calculateConfidence a fs ev = Num (max (1/100) (min (99/100) y))"
    unfolding Num y_def by (rule calculateConfidence_Num)
  moreover have "1/100 \<le> max (1/100) (min (99/100) y)" by (rule max.cobounded1)
  moreover have "max (1/100) (min (99/100) y) \<le> 99/100" by (rule max.boundedI) simp_all
  ultimately show ?thesis by blast
qed

text \<open>
  Claim C7 fails on the code. For a sentiment that is a number the result is the
  clamped formula of the claim (\<open>calculateConfidence_Num\<close>), but the sentiment of an
  empty token list is \<open>NaN\<close>, and then \<open>calculateConfidence\<close> returns \<open>NaN\<close>,
  which is not within \<open>[0.01, 0.99]\<close>: \<open>Math.min\<close> and \<open>Math.max\<close> do not clamp
  \<open>NaN\<close>. The claim ``1 + 1 = 2'' has no letter, so its processed text is empty and
  \<open>checkClaim\<close> reports the confidence \<open>NaN\<close>.
\<close>

theorem calculateConfidence_NaN_sentiment:
  "calculateConfidence NaN [] [] = NaN
   \<and> preprocessText offline ''1 + 1 = 2'' = []
   \<and> analyzeSentiment offline (preprocessText offline ''1 + 1 = 2'') = NaN
   \<and> confidence (fst (checkClaim offline ''1 + 1 = 2'' [])) = NaN"
  by code_simp

section \<open>The common-sense layer and the strong signal\<close>

lemma makeDirectVerdict_fields:
  "confidence (makeDirectVerdict c v conf expl) = conf"
  "verdict (makeDirectVerdict c v conf expl) = v"
  "explanation (makeDirectVerdict c v conf expl) = expl"
  "fc_evidence (makeDirectVerdict c v conf expl) = []"
  by (simp_all add: makeDirectVerdict_def)

lemma checkNationality_direct:
  "checkNationality rs raw = Some k \<Longrightarrow>
     confidence k = Num (99/100) \<and> (verdict k = ''TRUE'' \<or> verdict k = ''FALSE'')
     \<and> explanation k \<noteq> [] \<and> fc_evidence k = []"
proof (induction rs)
  case Nil
  then show ?case by simp
next
  case (Cons r rs)
  then show ?case
    by (auto simp: Let_def makeDirectVerdict_fields split: if_splits option.splits)
qed

lemma checkKnownFacts_direct:
  assumes "checkKnownFacts p raw = Some k"
  shows "confidence k = Num (99/100) \<and> (verdict k = ''TRUE'' \<or> verdict k = ''FALSE'')
         \<and> explanation k \<noteq> [] \<and> fc_evidence k = []"
proof (cases "checkNationality nationalityRules raw")
  case (Some r)
  then have "k = r" using assms by (simp add: checkKnownFacts_def)
  then show ?thesis using checkNationality_direct Some by blast
next
  case None
  note n = this
  show ?thesis
  proof (cases "checkVegetarian p raw")
    case (Some r)
    then have "k = r" using assms n by (simp add: checkKnownFacts_def)
    then show ?thesis using Some
      by (auto simp: checkVegetarian_def makeDirectVerdict_fields split: if_splits option.splits)
  next
    case None
    then have "checkWater raw = Some k" using assms n by (simp add: checkKnownFacts_def)
    then show ?thesis
      by (auto simp: checkWater_def makeDirectVerdict_fields split: if_splits)
  qed
qed

lemma checkClaim_known:
  "checkKnownFacts (preprocessText e c) c = Some k \<Longrightarrow> checkClaim e c reqs = (k, reqs)"
  by (simp add: checkClaim_def)

lemma determineVerdict_nonempty: "determineVerdictFromTruthScore t \<noteq> []"
  by (simp add: determineVerdictFromTruthScore_def)

text \<open>What \<open>checkClaim\<close> returns always has a verdict, and its confidence is \<open>NaN\<close> or
  a number between 0.01 and 0.99; so the default of the handler for the verdict never
  applies to it, and the default for the confidence applies exactly when it is
  \<open>NaN\<close>.\<close>

lemma checkClaim_wellformed:
  "verdict (fst (checkClaim e c reqs)) \<noteq> []
   \<and> (confidence (fst (checkClaim e c reqs)) = NaN
      \<or> (\<exists>x. confidence (fst (checkClaim e c reqs)) = Num x \<and> 1/100 \<le> x \<and> x \<le> 99/100))"
proof (cases "checkKnownFacts (preprocessText e c) c")
  case (Some k)
  then have k: "fst (checkClaim e c reqs) = k" by (simp add: checkClaim_known)
  have d: "confidence k = Num (99/100) \<and> (verdict k = ''TRUE'' \<or> verdict k = ''FALSE'')"
    using checkKnownFacts_direct [OF Some] by simp
  then have "verdict k \<noteq> []" by auto
  moreover have "\<exists>x. confidence k = Num x \<and> 1/100 \<le> x \<and> x \<le> 99/100"
    using d by (intro exI [of _ "99/100"]) simp
  ultimately show ?thesis unfolding k by blast
next
  case None
  obtain ev reqs' where se: "searchEvidence e c reqs = (ev, reqs')"
    by (cases "searchEvidence e c reqs")
  let ?conf = "calculateConfidence (analyzeSentiment e (preprocessText e c))
                 (detectLogicalFallacies e (preprocessText e c)) ev"
  have v: "verdict (fst (checkClaim e c reqs)) =
             determineVerdictFromTruthScore (truthScore (computeTruthScore c ev))"
    using None se by (simp add: checkClaim_def Let_def)
  have cf: "confidence (fst (checkClaim e c reqs)) = ?conf"
    using None se by (simp add: checkClaim_def Let_def)
  show ?thesis
    unfolding v cf using determineVerdict_nonempty calculateConfidence_range by blast
qed

lemma orDefault_checkClaim:
  assumes "confidence (fst (checkClaim e c reqs)) = Num x"
  shows "orDefault (confidence (fst (checkClaim e c reqs))) d = x"
proof -
  have "1/100 \<le> x" using checkClaim_wellformed [of e c reqs] assms by auto
  then have "x \<noteq> 0" by linarith
  then show ?thesis by (simp add: assms orDefault_def)
qed

text \<open>The handler tests the strong signal on \<open>fc.confidence || 0.5\<close>; this is the
  test on the confidence itself.\<close>

lemma isStrongFC_orDefault:
  "isStrongFC v (orDefault a (1/2)) t \<longleftrightarrow>
     ((v = ''TRUE'' \<or> v = ''FALSE'') \<and> (\<exists>x. a = Num x \<and> x \<ge> 80/100))
     \<or> t \<ge> 90/100 \<or> t \<le> 10/100"
proof (cases a)
  case NaN
  then show ?thesis by (simp add: isStrongFC_def orDefault_def)
next
  case (Num x)
  then show ?thesis by (cases "x = 0") (simp_all add: isStrongFC_def orDefault_def)
qed

lemma sum_fc_fields:
  "verdict sum_fc = ''TRUE''" "confidence sum_fc = NaN" "fc_truthScore sum_fc = 0"
  by code_simp+

text \<open>
  Claim C2, as stated, fails in its confidence. For the claim ``1 + 1 = 2'' with one
  evidence item that says ``confirmed'', the fact checker's truth score is 0, so the
  strong-signal condition holds; its confidence is \<open>NaN\<close>, and the final confidence is
  0.5, by \<open>fc.confidence || 0.5\<close>. The handler answers with these values.
\<close>

theorem strong_signal_with_NaN_confidence:
  "fc_truthScore sum_fc \<le> 10/100
   \<and> confidence sum_fc = NaN
   \<and> reconcile confirming sum_fc 1 (1/2) = (''TRUE'', 1/2)
   \<and> Num (snd (reconcile confirming sum_fc 1 (1/2))) \<noteq> confidence sum_fc
   \<and> (case fst (analyze confirming ''1 + 1 = 2'') of
         Inl f \<Rightarrow> None
       | Inr r \<Rightarrow> Some (final_verdict r, final_confidence r, resp_truthScore r))
       = Some (''TRUE'', 1/2, 0)"
  by code_simp

text \<open>
  Claim C2, amended. Let \<open>fc\<close> be the result of the fact checker. Whenever the
  strong-signal condition holds of it (its verdict is TRUE or FALSE with confidence at
  least 0.80, or its truth score is at least 0.90, or at most 0.10), the reconciler
  returns the fact checker's verdict, whatever the cross-source agreement \<open>csa\<close> and
  the source credibility \<open>cred\<close> are, together with \<open>fc.confidence || 0.5\<close>: the fact
  checker's confidence whenever that is a number, and 0.5 in its place otherwise.
\<close>

theorem strong_signal_is_final:
  assumes "fc = fst (checkClaim e c reqs)"
    and "((verdict fc = ''TRUE'' \<or> verdict fc = ''FALSE'')
          \<and> (\<exists>x. confidence fc = Num x \<and> x \<ge> 80/100))
         \<or> fc_truthScore fc \<ge> 90/100 \<or> fc_truthScore fc \<le> 10/100"
  shows "reconcile e fc csa cred = (verdict fc, orDefault (confidence fc) (1/2))
         \<and> (\<forall>x. confidence fc = Num x \<longrightarrow> reconcile e fc csa cred = (verdict fc, x))
         \<and> (confidence fc = NaN \<longrightarrow> reconcile e fc csa cred = (verdict fc, 1/2))"
proof -
  have v: "verdict fc \<noteq> []"
    using checkClaim_wellformed [of e c reqs] assms(1) by simp
  have st: "isStrongFC (verdict fc) (orDefault (confidence fc) (1/2)) (fc_truthScore fc)"
    using assms(2) isStrongFC_orDefault [of "verdict fc" "confidence fc" "fc_truthScore fc"]
    by blast
  have r: "reconcile e fc csa cred = (verdict fc, orDefault (confidence fc) (1/2))"
    using v st by (simp add: reconcile_def)
  have n: "orDefault (confidence fc) (1/2) = x" if "confidence fc = Num x" for x
    using orDefault_checkClaim [of e c reqs x "1/2"] that assms(1) by simp
  have d: "orDefault (confidence fc) (1/2) = 1/2" if "confidence fc = NaN"
    using that by (simp add: orDefault_def)
  show ?thesis using r n d by simp
qed

theorem strong_signal_is_final_witness:
  "verdict (fst (checkClaim offline ''Water is wet'' [])) = ''TRUE''
   \<and> confidence (fst (checkClaim offline ''Water is wet'' [])) = Num (99/100)
   \<and> reconcile offline (fst (checkClaim offline ''Water is wet'' [])) (1/2) (1/2)
       = (''TRUE'', 99/100)
   \<and> fc_truthScore sum_fc \<le> 10/100
   \<and> confidence sum_fc = NaN
   \<and> reconcile confirming sum_fc (1/2) (1/2) = (''TRUE'', 1/2)"
proof -
  have v: "verdict (fst (checkClaim offline ''Water is wet'' [])) = ''TRUE''" by code_simp
  have c: "confidence (fst (checkClaim offline ''Water is wet'' [])) = Num (99/100)"
    by code_simp
  have "\<exists>x. confidence (fst (checkClaim offline ''Water is wet'' [])) = Num x \<and> x \<ge> 80/100"
    using c by (intro exI [of _ "99/100"]) simp
  then have s: "((verdict (fst (checkClaim offline ''Water is wet'' [])) = ''TRUE''
           \<or> verdict (fst (checkClaim offline ''Water is wet'' [])) = ''FALSE'')
          \<and> (\<exists>x. confidence (fst (checkClaim offline ''Water is wet'' [])) = Num x
                   \<and> x \<ge> 80/100))
         \<or> fc_truthScore (fst (checkClaim offline ''Water is wet'' [])) \<ge> 90/100
         \<or> fc_truthScore (fst (checkClaim offline ''Water is wet'' [])) \<le> 10/100"
    using v by blast
  have t: "fc_truthScore sum_fc \<le> 10/100" by (simp add: sum_fc_fields)
  then have s2: "((verdict sum_fc = ''TRUE'' \<or> verdict sum_fc = ''FALSE'')
          \<and> (\<exists>x. confidence sum_fc = Num x \<and> x \<ge> 80/100))
         \<or> fc_truthScore sum_fc \<ge> 90/100 \<or> fc_truthScore sum_fc \<le> 10/100"
    by blast
  have o: "orDefault (Num (99/100)) (1/2) = 99/100" "orDefault NaN (1/2) = 1/2"
    by (simp_all add: orDefault_def)
  have "reconcile offline (fst (checkClaim offline ''Water is wet'' [])) (1/2) (1/2)
          = (verdict (fst (checkClaim offline ''Water is wet'' [])),
             orDefault (confidence (fst (checkClaim offline ''Water is wet'' []))) (1/2))"
    using strong_signal_is_final [OF refl s, of "1/2" "1/2"] by blast
  then have 1: "reconcile offline (fst (checkClaim offline ''Water is wet'' [])) (1/2) (1/2)
             = (''TRUE'', 99/100)"
    by (simp only: v c o)
  have "reconcile confirming sum_fc (1/2) (1/2)
          = (verdict sum_fc, orDefault (confidence sum_fc) (1/2))"
    using strong_signal_is_final [OF sum_fc_def s2, of "1/2" "1/2"] by blast
  then have 2: "reconcile confirming sum_fc (1/2) (1/2) = (''TRUE'', 1/2)"
    by (simp only: sum_fc_fields o)
  show ?thesis using v c 1 t sum_fc_fields(2) 2 by blast
qed

section \<open>Source credibility\<close>

lemma hostTier_values:
  "hostTier h = 95/100 \<or> hostTier h = 85/100 \<or> hostTier h = 8/10
   \<or> hostTier h = 25/100 \<or> hostTier h = 5/10"
  unfolding hostTier_def by presburger

lemma hostTier_not_04: "hostTier h \<noteq> 4/10"
  using hostTier_values [of h] by auto

lemma hostTier_unit: "0 \<le> hostTier h \<and> hostTier h \<le> 1"
  using hostTier_values [of h] by auto

lemma classify_host:
  "u \<noteq> [] \<Longrightarrow>
   classifySourceQuality e u =
     hostTier (case parseURL e u of
                 Some parts \<Rightarrow> toLowerCase (hostname parts)
               | None \<Rightarrow> toLowerCase u)"
  by (simp add: classifySourceQuality_def)

text \<open>
  Claim C6. \<open>classifySourceQuality\<close> is total: for every string \<open>u\<close>, the empty
  string and strings that the URL parser rejects included, and whatever the parser
  does, it returns one of its six scores, a number between 0 and 1. The rejection by
  the parser is a value of the model (\<open>None\<close>), and no branch of the function fails.
\<close>

theorem classifySourceQuality_total:
  "0 \<le> classifySourceQuality e u \<and> classifySourceQuality e u \<le> 1
   \<and> (classifySourceQuality e u = 4/10 \<or> classifySourceQuality e u = 95/100
      \<or> classifySourceQuality e u = 85/100 \<or> classifySourceQuality e u = 8/10
      \<or> classifySourceQuality e u = 25/100 \<or> classifySourceQuality e u = 5/10)"
proof (cases "u = []")
  case True
  then show ?thesis by (simp add: classifySourceQuality_def)
next
  case False
  show ?thesis
    unfolding classify_host [OF False] using hostTier_values hostTier_unit by blast
qed

text \<open>
  Claim C5, as stated, fails: the string \<open>garbage\<close> does not parse as a URL, and its
  score is 0.5, not 0.4.
\<close>

theorem malformed_url_scores_half:
  "parseURL offline ''garbage'' = None
   \<and> classifySourceQuality offline ''garbage'' = 5/10
   \<and> classifySourceQuality offline ''garbage'' \<noteq> 4/10"
  by code_simp

text \<open>
  Claim C5, amended. \<open>classifySourceQuality\<close> returns 0.4 exactly for the empty
  string. A non-empty string that does not parse as a URL is not an error: the
  string itself, lower-cased, is classified by the tier table in place of the host, as
  the host of a well-formed URL is; so it scores 0.5 when it matches no tier.
\<close>

theorem malformed_url_is_classified_as_host:
  "(classifySourceQuality e u = 4/10 \<longleftrightarrow> u = [])
   \<and> (u \<noteq> [] \<and> parseURL e u = None \<longrightarrow>
        classifySourceQuality e u = hostTier (toLowerCase u))
   \<and> (\<forall>parts. u \<noteq> [] \<and> parseURL e u = Some parts \<longrightarrow>
        classifySourceQuality e u = hostTier (toLowerCase (hostname parts)))"
proof (cases "u = []")
  case True
  then show ?thesis by (simp add: classifySourceQuality_def)
next
  case False
  then show ?thesis using hostTier_not_04 by (auto simp: classify_host)
qed

theorem malformed_url_is_classified_as_host_witness:
  "parseURL offline ''no tier here'' = None
   \<and> classifySourceQuality offline ''no tier here'' = 5/10
   \<and> parseURL offline ''Wikipedia.org'' = None
   \<and> classifySourceQuality offline ''Wikipedia.org'' = 85/100
   \<and> parseURL offline ''https://www.cdc.gov/flu''
       = Some \<lparr> protocol = ''https:'', hostname = ''www.cdc.gov'' \<rparr>
   \<and> classifySourceQuality offline ''https://www.cdc.gov/flu'' = 95/100
   \<and> classifySourceQuality offline [] = 4/10"
proof -
  have a: "parseURL offline ''no tier here'' = None" "parseURL offline ''Wikipedia.org'' = None"
    "parseURL offline ''https://www.cdc.gov/flu''
       = Some \<lparr> protocol = ''https:'', hostname = ''www.cdc.gov'' \<rparr>"
    by code_simp+
  have b: "toLowerCase ''no tier here'' = ''no tier here''"
    "toLowerCase ''Wikipedia.org'' = ''wikipedia.org''"
    "toLowerCase ''www.cdc.gov'' = ''www.cdc.gov''"
    by code_simp+
  have c: "hostTier ''no tier here'' = 5/10" "hostTier ''wikipedia.org'' = 85/100"
    "hostTier ''www.cdc.gov'' = 95/100"
    by code_simp+
  show ?thesis
    using malformed_url_is_classified_as_host [of offline "''no tier here''"]
      malformed_url_is_classified_as_host [of offline "''Wikipedia.org''"]
      malformed_url_is_classified_as_host [of offline "''https://www.cdc.gov/flu''"]
      malformed_url_is_classified_as_host [of offline "[]"] a b c
    by simp
qed

section \<open>Deduplication by URL\<close>

lemma mergeInto_urls:
  "set (map ev_url (mergeInto acc evs)) = set (map ev_url acc) \<union> (set (map ev_url evs) - {[]})"
  by (induction evs arbitrary: acc) auto

lemma mergeInto_distinct:
  "distinct (map ev_url acc) \<Longrightarrow> distinct (map ev_url (mergeInto acc evs))"
  by (induction evs arbitrary: acc) auto

lemma count_one:
  "distinct (map f xs) \<Longrightarrow> y \<in> f ` set xs \<Longrightarrow> length (filter (\<lambda>x. f x = y) xs) = 1"
proof (induction xs)
  case Nil
  then show ?case by simp
next
  case (Cons x xs)
  show ?case
  proof (cases "f x = y")
    case True
    then have "y \<notin> f ` set xs" using Cons.prems(1) by auto
    then have "filter (\<lambda>x. f x = y) xs = []" by (auto simp: filter_empty_conv)
    then show ?thesis using True by simp
  next
    case False
    then have "y \<in> f ` set xs" using Cons.prems(2) by auto
    then show ?thesis using Cons.IH Cons.prems(1) False by simp
  qed
qed

lemma wikiItems_inv: "searchInv st \<Longrightarrow> searchInv (wikiItems e c hits st)"
proof (induction hits arbitrary: st)
  case Nil
  then show ?case by (cases st) simp
next
  case (Cons h hs)
  obtain seen results where st: "st = (seen, results)" by (cases st)
  let ?u = "''https://en.wikipedia.org/wiki/''
              @ encodeURIComponent (collapseRuns (CHR ''_'') False (hit_title h))"
  show ?case
  proof (cases "?u \<in> set seen")
    case True
    then have "wikiItems e c (h # hs) st = wikiItems e c hs st" by (simp add: st Let_def)
    then show ?thesis using Cons by simp
  next
    case False
    let ?st' = "(seen @ [?u],
                 results @ [\<lparr> source = ''Wikipedia'', title = hit_title h,
                               snippet = stripTags (hit_snippet h), url = ?u,
                               relevance = calculateRelevance e c (hit_snippet h),
                               fullText = None \<rparr>])"
    have eq: "wikiItems e c (h # hs) st = wikiItems e c hs ?st'"
      using False by (simp add: st Let_def)
    have "searchInv ?st'" using Cons.prems False by (auto simp: searchInv_def st)
    then show ?thesis unfolding eq by (rule Cons.IH)
  qed
qed

lemma ddgItem_inv: "searchInv st \<Longrightarrow> searchInv (ddgItem e c d st)"
  by (cases st) (auto simp: ddgItem_def searchInv_def Let_def)

lemma searchStep_inv: "searchInv st \<Longrightarrow> searchInv (searchStep e c q st)"
  by (auto simp: searchStep_def Let_def wikiItems_inv ddgItem_inv split: option.splits)

lemma searchLoop_inv: "searchInv st \<Longrightarrow> searchInv (fst (searchLoop e c qs (st, reqs)))"
proof (induction qs arbitrary: st reqs)
  case Nil
  then show ?case by simp
next
  case (Cons q qs)
  have i: "searchInv (searchStep e c q st)" using Cons.prems by (rule searchStep_inv)
  show ?case using i Cons.IH [OF i] by (simp add: Let_def)
qed

text \<open>The enrichment sets \<open>fullText\<close> and nothing else.\<close>

lemma enrich_urls: "map url (fst (enrich e items reqs)) = map url items"
proof (induction items arbitrary: reqs)
  case Nil
  then show ?case by simp
next
  case (Cons item items)
  obtain t reqs1 where f: "fetchArticleText e (url item) reqs = (t, reqs1)"
    by (metis surj_pair)
  obtain rest reqs2 where r: "enrich e items reqs1 = (rest, reqs2)" by (metis surj_pair)
  have "map url rest = map url items" using Cons.IH [of reqs1] r by simp
  then show ?case by (simp add: f r Let_def)
qed

lemma searchEvidence_results:
  "map url (fst (searchEvidence e c reqs)) =
     map url (snd (fst (searchLoop e c (generateSearchQueries c) (([], []), reqs))))"
proof -
  obtain seen results reqs1 where
    l: "searchLoop e c (generateSearchQueries c) (([], []), reqs) = ((seen, results), reqs1)"
    by (metis surj_pair)
  obtain top reqs2 where t: "enrich e (take 5 results) reqs1 = (top, reqs2)"
    by (metis surj_pair)
  have "map url top = map url (take 5 results)"
    using enrich_urls [of e "take 5 results" reqs1] t by simp
  then have "map url (top @ drop 5 results) = map url results"
    by (metis append_take_drop_id map_append)
  then show ?thesis by (simp add: searchEvidence_def l t Let_def)
qed

lemma searchEvidence_length:
  "length (fst (searchEvidence e c reqs)) =
     length (snd (fst (searchLoop e c (generateSearchQueries c) (([], []), reqs))))"
  using searchEvidence_results [of e c reqs] by (metis length_map)

text \<open>
  Claim C9, as stated, fails for the empty URL: two evidence sets that each hold an
  object whose url is the empty string merge into a set with no object for it.
\<close>

theorem merge_drops_empty_url:
  "ev_url no_url_item = []
   \<and> mergeEvidence [no_url_item] [no_url_item] = []
   \<and> length (filter (\<lambda>x. ev_url x = []) (mergeEvidence [no_url_item] [no_url_item])) = 0"
  by code_simp

text \<open>
  Claim C9, amended. In every merged evidence set no two objects share a url, and no
  object has the empty url (objects without url are dropped). Merging two evidence
  sets that each contain an object with the same non-empty URL yields exactly one
  object for that URL. The evidence set of \<open>searchEvidence\<close> has no two items with the
  same url either.
\<close>

theorem merge_keeps_one_per_url:
  "distinct (map ev_url (mergeEvidence a b))
   \<and> [] \<notin> set (map ev_url (mergeEvidence a b))
   \<and> (u \<noteq> [] \<and> u \<in> ev_url ` set a \<and> u \<in> ev_url ` set b \<longrightarrow>
        length (filter (\<lambda>x. ev_url x = u) (mergeEvidence a b)) = 1)
   \<and> distinct (map url (fst (searchEvidence e c reqs)))"
proof (intro conjI impI)
  show d: "distinct (map ev_url (mergeEvidence a b))"
    unfolding mergeEvidence_def by (rule mergeInto_distinct) simp
  have s: "set (map ev_url (mergeEvidence a b)) = set (map ev_url (a @ b)) - {[]}"
    unfolding mergeEvidence_def mergeInto_urls by simp
  show "[] \<notin> set (map ev_url (mergeEvidence a b))" unfolding s by simp
  show "length (filter (\<lambda>x. ev_url x = u) (mergeEvidence a b)) = 1"
    if "u \<noteq> [] \<and> u \<in> ev_url ` set a \<and> u \<in> ev_url ` set b"
  proof -
    have "u \<in> set (map ev_url (mergeEvidence a b))" unfolding s using that by auto
    then have "u \<in> ev_url ` set (mergeEvidence a b)" by simp
    with d show ?thesis by (rule count_one)
  qed
  have "searchInv ([], [])" by (simp add: searchInv_def)
  then have "searchInv (fst (searchLoop e c (generateSearchQueries c) (([], []), reqs)))"
    by (rule searchLoop_inv)
  then show "distinct (map url (fst (searchEvidence e c reqs)))"
    unfolding searchEvidence_results by (simp add: searchInv_def)
qed

theorem merge_keeps_one_per_url_witness:
  "ev_url moon_a = ev_url moon_b \<and> ev_url moon_a \<noteq> []
   \<and> mergeEvidence [moon_a] [moon_b, no_url_item] = [moon_a]
   \<and> length (filter (\<lambda>x. ev_url x = ev_url moon_a)
               (mergeEvidence [moon_a] [moon_b, no_url_item])) = 1"
proof -
  have a: "ev_url moon_a = ev_url moon_b" "ev_url moon_a \<noteq> []" by code_simp+
  have m: "mergeEvidence [moon_a] [moon_b, no_url_item] = [moon_a]" by code_simp
  have "length (filter (\<lambda>x. ev_url x = ev_url moon_a)
               (mergeEvidence [moon_a] [moon_b, no_url_item])) = 1"
    using merge_keeps_one_per_url
            [of "[moon_a]" "[moon_b, no_url_item]" "ev_url moon_a" offline "''c''" "[]"] a
    by simp
  with a m show ?thesis by blast
qed

section \<open>The size of the evidence set\<close>

lemma wikiItems_length:
  "length (snd st) \<le> length (snd (wikiItems e c hits st))
   \<and> length (snd (wikiItems e c hits st)) \<le> length (snd st) + length hits"
proof (induction hits arbitrary: st)
  case Nil
  then show ?case by (cases st) simp
next
  case (Cons h hs)
  obtain seen results where st: "st = (seen, results)" by (cases st)
  let ?u = "''https://en.wikipedia.org/wiki/''
              @ encodeURIComponent (collapseRuns (CHR ''_'') False (hit_title h))"
  show ?case
  proof (cases "?u \<in> set seen")
    case True
    then have "wikiItems e c (h # hs) st = wikiItems e c hs st" by (simp add: st Let_def)
    then show ?thesis using Cons.IH [of st] by simp
  next
    case False
    let ?st' = "(seen @ [?u],
                 results @ [\<lparr> source = ''Wikipedia'', title = hit_title h,
                               snippet = stripTags (hit_snippet h), url = ?u,
                               relevance = calculateRelevance e c (hit_snippet h),
                               fullText = None \<rparr>])"
    have eq: "wikiItems e c (h # hs) st = wikiItems e c hs ?st'"
      using False by (simp add: st Let_def)
    show ?thesis unfolding eq using Cons.IH [of ?st'] by (simp add: st)
  qed
qed

lemma ddgItem_length:
  "length (snd st) \<le> length (snd (ddgItem e c d st))
   \<and> length (snd (ddgItem e c d st)) \<le> length (snd st) + 1"
  by (cases st) (simp add: ddgItem_def Let_def)

text \<open>One pass of the loop adds at most four items: three hits and one instant answer.\<close>

lemma searchStep_length:
  "length (snd st) \<le> length (snd (searchStep e c q st))
   \<and> length (snd (searchStep e c q st)) \<le> length (snd st) + 4"
proof -
  define st1 where
    "st1 = (case wikiSearch e q of Some hits \<Rightarrow> wikiItems e c (take 3 hits) st | None \<Rightarrow> st)"
  have a: "length (snd st) \<le> length (snd st1) \<and> length (snd st1) \<le> length (snd st) + 3"
  proof (cases "wikiSearch e q")
    case None
    then show ?thesis by (simp add: st1_def)
  next
    case (Some hits)
    have "length (take 3 hits) \<le> 3" by simp
    then show ?thesis
      using wikiItems_length [of st e c "take 3 hits"] Some unfolding st1_def
      by (simp del: length_take)
  qed
  have b: "length (snd st1) \<le> length (snd (searchStep e c q st))
           \<and> length (snd (searchStep e c q st)) \<le> length (snd st1) + 1"
    using ddgItem_length [of st1 e c]
    by (cases "ddgInstant e q") (simp_all add: searchStep_def st1_def [symmetric])
  show ?thesis using a b by linarith
qed

lemma searchLoop_cap:
  "length (snd st) \<le> 20 \<Longrightarrow> length (snd (fst (searchLoop e c qs (st, reqs)))) \<le> 24"
proof (induction qs arbitrary: st reqs)
  case Nil
  then show ?case by simp
next
  case (Cons q qs)
  have s: "length (snd (searchStep e c q st)) \<le> 24"
    using searchStep_length [of st e c q] Cons.prems by linarith
  show ?case
  proof (cases "length (snd (searchStep e c q st)) > 20")
    case True
    then show ?thesis using s by (simp add: Let_def)
  next
    case False
    then have "length (snd (searchStep e c q st)) \<le> 20" by simp
    from Cons.IH [OF this] show ?thesis using False by (simp add: Let_def)
  qed
qed

text \<open>
  Claim C8, as stated, fails: when each of the six queries brings three new Wikipedia
  hits and an instant answer with a new URL, \<open>searchEvidence\<close> returns 24 items.
\<close>

theorem searchEvidence_returns_24:
  "length (fst (searchEvidence busy ''c'' [])) = 24"
  by code_simp

text \<open>
  Claim C8, amended. \<open>searchEvidence\<close> tests the running total only after a query
  has been processed: when the total then exceeds 20 it stops and processes no further
  query, otherwise it goes on with the next one. A query adds at most four items, so
  the evidence set never contains more than 24 items, however many queries there are.
\<close>

theorem searchEvidence_at_most_24:
  "length (fst (searchEvidence e c reqs)) \<le> 24
   \<and> (\<forall>qs. length (snd (fst (searchLoop e c qs (([], []), reqs)))) \<le> 24)
   \<and> (\<forall>q qs st. length (snd (searchStep e c q st)) > 20 \<longrightarrow>
         searchLoop e c (q # qs) (st, reqs)
           = (searchStep e c q st, reqs @ [WikiSearchReq q, DdgInstantReq q]))
   \<and> (\<forall>q qs st. length (snd (searchStep e c q st)) \<le> 20 \<longrightarrow>
         searchLoop e c (q # qs) (st, reqs)
           = searchLoop e c qs
               (searchStep e c q st, reqs @ [WikiSearchReq q, DdgInstantReq q]))"
proof (intro conjI allI impI)
  show "length (fst (searchEvidence e c reqs)) \<le> 24"
    unfolding searchEvidence_length by (rule searchLoop_cap) simp
  show "length (snd (fst (searchLoop e c qs (([], []), reqs)))) \<le> 24" for qs
    by (rule searchLoop_cap) simp
  show "searchLoop e c (q # qs) (st, reqs)
           = (searchStep e c q st, reqs @ [WikiSearchReq q, DdgInstantReq q])"
    if "length (snd (searchStep e c q st)) > 20" for q qs st
    using that by (simp add: Let_def)
  show "searchLoop e c (q # qs) (st, reqs)
           = searchLoop e c qs
               (searchStep e c q st, reqs @ [WikiSearchReq q, DdgInstantReq q])"
    if "length (snd (searchStep e c q st)) \<le> 20" for q qs st
    using that by (simp add: Let_def)
qed

theorem searchEvidence_at_most_24_witness:
  "length (snd (searchStep busy ''c'' ''q'' ([], replicate 17 sample_item))) = 21
   \<and> snd (searchLoop busy ''c'' [''q'', ''r''] (([], replicate 17 sample_item), []))
       = [WikiSearchReq ''q'', DdgInstantReq ''q'']
   \<and> length (snd (searchStep busy ''c'' ''q'' ([], replicate 16 sample_item))) = 20
   \<and> snd (searchLoop busy ''c'' [''q'', ''r''] (([], replicate 16 sample_item), []))
       = [WikiSearchReq ''q'', DdgInstantReq ''q'', WikiSearchReq ''r'', DdgInstantReq ''r'']
   \<and> length (snd (fst (searchLoop busy ''c'' [''q'', ''r'']
                          (([], replicate 16 sample_item), [])))) = 24"
proof -
  have a: "length (snd (searchStep busy ''c'' ''q'' ([], replicate 17 sample_item))) = 21"
    by code_simp
  have b: "length (snd (searchStep busy ''c'' ''q'' ([], replicate 16 sample_item))) = 20"
    by code_simp
  have c: "snd (searchLoop busy ''c'' [''r'']
                 (searchStep busy ''c'' ''q'' ([], replicate 16 sample_item),
                  [WikiSearchReq ''q'', DdgInstantReq ''q'']))
    = [WikiSearchReq ''q'', DdgInstantReq ''q'', WikiSearchReq ''r'', DdgInstantReq ''r'']"
    by code_simp
  have d: "length (snd (fst (searchLoop busy ''c'' [''r'']
                 (searchStep busy ''c'' ''q'' ([], replicate 16 sample_item),
                  [WikiSearchReq ''q'', DdgInstantReq ''q''])))) = 24"
    by code_simp
  note t = searchEvidence_at_most_24 [of busy "''c''" "[]"]
  from t a have 1:
    "searchLoop busy ''c'' [''q'', ''r''] (([], replicate 17 sample_item), [])
       = (searchStep busy ''c'' ''q'' ([], replicate 17 sample_item),
          [] @ [WikiSearchReq ''q'', DdgInstantReq ''q''])"
    by simp
  from t b have 2:
    "searchLoop busy ''c'' [''q'', ''r''] (([], replicate 16 sample_item), [])
       = searchLoop busy ''c'' [''r'']
           (searchStep busy ''c'' ''q'' ([], replicate 16 sample_item),
            [] @ [WikiSearchReq ''q'', DdgInstantReq ''q''])"
    by simp
  show ?thesis using a b c d 1 2 by simp
qed

section \<open>The handler and the common-sense layer\<close>














section \<open>The reconciler without a strong signal\<close>

text \<open>The rounding of the concrete environments returns a nearest decimal.\<close>

lemma nearestFixed_close: "\<bar>nearestFixed d x - x\<bar> \<le> 1 / (2 * 10 ^ d)"
proof (cases "\<bar>x\<bar> \<ge> 10 ^ 21")
  case True
  then show ?thesis by (simp add: nearestFixed_def)
next
  case False
  define p :: real where "p = 10 ^ d"
  have p: "p > 0" by (simp add: p_def)
  define n where "n = \<lceil>\<bar>x\<bar> * p - 1/2\<rceil>"
  have lo: "\<bar>x\<bar> * p - 1/2 \<le> of_int n" unfolding n_def by (rule le_of_int_ceiling)
  have hi: "of_int n < \<bar>x\<bar> * p - 1/2 + 1" unfolding n_def by linarith
  have "\<bar>of_int n - \<bar>x\<bar> * p\<bar> \<le> 1/2" using lo hi by linarith
  then have q: "\<bar>of_int n - \<bar>x\<bar> * p\<bar> / p \<le> (1/2) / p"
    using p by (intro divide_right_mono) simp_all
  have e1: "of_int n / p - \<bar>x\<bar> = (of_int n - \<bar>x\<bar> * p) / p"
    using p by (simp add: diff_divide_distrib)
  have "\<bar>of_int n - \<bar>x\<bar> * p\<bar> / p = \<bar>of_int n / p - \<bar>x\<bar>\<bar>"
    unfolding e1 abs_divide using p by simp
  with q have m: "\<bar>of_int n / p - \<bar>x\<bar>\<bar> \<le> 1 / (2 * p)" by simp
  have "nearestFixed d x = (if x < 0 then - (of_int n / p) else of_int n / p)"
    using False by (simp add: nearestFixed_def n_def p_def Let_def)
  then have "\<bar>nearestFixed d x - x\<bar> = \<bar>of_int n / p - \<bar>x\<bar>\<bar>" by (auto simp: abs_if)
  then show ?thesis using m by (simp add: p_def)
qed







end
